theory Spec2Isabelle
  imports Main
begin

section \<open>Process start: configuration, database connection, router\<close>

text \<open>
  The repository holds two variants of the same program: \<^verbatim>\<open>src/main.go\<close> and
  \<^verbatim>\<open>src/unnamed/part_000\<close>. Their \<^verbatim>\<open>main\<close> functions differ in three places (the
  handling of a failed \<^verbatim>\<open>godotenv.Load\<close>, the allowed origins, the listen address);
  the two request handlers are the same text in both files.

  What \<^verbatim>\<open>main\<close> reads from outside is gathered in a record: the process environment,
  the parsed \<^verbatim>\<open>.env\<close> file of the working directory (\<open>None\<close> when it is missing or does
  not parse), and the outcome of \<^verbatim>\<open>mongo.Connect\<close> and of \<^verbatim>\<open>client.Ping\<close> (\<open>None\<close> for
  success, otherwise the text of the error).
\<close>

record process =
  environ :: "(string \<times> string) list"
  dotenv_file :: "(string \<times> string) list option"
  connect_error :: "string option"
  ping_error :: "string option"

text \<open>\<^verbatim>\<open>os.Getenv\<close>: the value of the variable, the empty string when it is not set.\<close>

definition Getenv :: "(string \<times> string) list \<Rightarrow> string \<Rightarrow> string" where
  "Getenv env k = (case map_of env k of None \<Rightarrow> [] | Some v \<Rightarrow> v)"

text \<open>
  \<^verbatim>\<open>godotenv.Load()\<close>: reads \<^verbatim>\<open>.env\<close> and sets every variable of the file that the
  process environment does not have yet (a variable that is already set wins: the
  entries of the file are placed behind those of the environment, and a lookup takes
  the first). It returns an error, and leaves the environment alone, when the file
  cannot be read or parsed. Both variants only test the error against \<^verbatim>\<open>nil\<close> and never
  read its text, so one text stands for every cause.
\<close>

definition godotenv_Load :: "process \<Rightarrow> string option \<times> (string \<times> string) list" where
  "godotenv_Load p =
     (case dotenv_file p of
        None \<Rightarrow> (Some ''open .env: no such file or directory'', environ p)
      | Some kvs \<Rightarrow> (None, environ p @ kvs))"

text \<open>\<^verbatim>\<open>cors.Config\<close>, with the four fields the program sets.\<close>

record Config =
  AllowOrigins :: "string list"
  AllowMethods :: "string list"
  AllowHeaders :: "string list"
  AllowCredentials :: bool

text \<open>
  What the process does, in order. \<open>Log_Fatal\<close> is \<^verbatim>\<open>log.Fatal\<close>: it prints and calls
  \<^verbatim>\<open>os.Exit(1)\<close>, so it is the last event of a run. \<open>Ping n\<close> is the ping of the primary
  under a timeout of \<open>n\<close> seconds, \<open>Handle m path\<close> the registration of a handler
  (\<^verbatim>\<open>r.GET\<close>, \<^verbatim>\<open>r.POST\<close>), \<open>Run addr\<close> the call \<^verbatim>\<open>r.Run(addr)\<close> that opens the listener.
\<close>

datatype event =
    Log_Println string
  | Log_Fatal string
  | Fmt_Println string
  | Connect string
  | Ping nat
  | Collection string string
  | Default
  | Use Config
  | Handle string string
  | Run string

text \<open>The policy of \<^verbatim>\<open>src/main.go\<close>, lines 76 to 81.\<close>

definition cors_main_go :: Config where
  "cors_main_go =
     \<lparr> AllowOrigins = [''http://localhost:5173''],
       AllowMethods = [''GET'', ''POST'', ''PUT'', ''DELETE''],
       AllowHeaders = [''Origin'', ''Content-Type''],
       AllowCredentials = True \<rparr>"

text \<open>The policy of \<^verbatim>\<open>src/unnamed/part_000\<close>, lines 68 to 73.\<close>

definition cors_part_000 :: Config where
  "cors_part_000 =
     \<lparr> AllowOrigins = [''http://localhost:5173'', ''https://your-render-service.onrender.com''],
       AllowMethods = [''GET'', ''POST'', ''PUT'', ''DELETE''],
       AllowHeaders = [''Origin'', ''Content-Type''],
       AllowCredentials = True \<rparr>"

text \<open>
  \<^verbatim>\<open>main\<close> of \<^verbatim>\<open>src/main.go\<close>. A failed \<^verbatim>\<open>godotenv.Load\<close> is \<^verbatim>\<open>log.Fatal\<close>; the listen
  address is the literal \<^verbatim>\<open>":8080"\<close>.
\<close>

definition main_go :: "process \<Rightarrow> event list" where
  "main_go p =
     (case godotenv_Load p of
        (Some err, env) \<Rightarrow> [Log_Fatal ''Error loading .env file'']
      | (None, env) \<Rightarrow>
          (let t = [Fmt_Println (''Main package -> PORT: '' @ Getenv env ''PORT'')];
               uri = Getenv env ''MONGODB_URI''
           in if uri = [] then
                t @ [Log_Fatal ''You must set MONGODB_URI environment variable'']
              else
                (case connect_error p of
                   Some err \<Rightarrow>
                     t @ [Connect uri, Log_Fatal (''MongoDB connection error:'' @ err)]
                 | None \<Rightarrow>
                     (case ping_error p of
                        Some err \<Rightarrow>
                          t @ [Connect uri, Ping 15,
                               Log_Fatal (''MongoDB ping failed:'' @ err)]
                      | None \<Rightarrow>
                          t @ [Connect uri, Ping 15,
                               Fmt_Println ''Pinged your deployment. You successfully connected to MongoDB!'',
                               Collection ''students'' ''theirdata'',
                               Default,
                               Use cors_main_go,
                               Handle ''GET'' ''/students'',
                               Handle ''POST'' ''/students'',
                               Run '':8080'']))))"

text \<open>
  \<^verbatim>\<open>main\<close> of \<^verbatim>\<open>src/unnamed/part_000\<close>. A failed \<^verbatim>\<open>godotenv.Load\<close> is \<^verbatim>\<open>log.Println\<close>
  and the run goes on; the listen address is built from \<^verbatim>\<open>PORT\<close>, with \<^verbatim>\<open>"8080"\<close> when
  \<^verbatim>\<open>os.Getenv("PORT")\<close> is empty.
\<close>

definition main_part_000 :: "process \<Rightarrow> event list" where
  "main_part_000 p =
     (case godotenv_Load p of
        (loaded, env) \<Rightarrow>
          (let t = (case loaded of
                      Some err \<Rightarrow>
                        [Log_Println ''No .env file found, using Render environment variables'']
                    | None \<Rightarrow> [])
                   @ [Fmt_Println (''Main package -> PORT: '' @ Getenv env ''PORT'')];
               uri = Getenv env ''MONGODB_URI''
           in if uri = [] then
                t @ [Log_Fatal ''You must set MONGODB_URI environment variable'']
              else
                (case connect_error p of
                   Some err \<Rightarrow>
                     t @ [Connect uri, Log_Fatal (''MongoDB connection error:'' @ err)]
                 | None \<Rightarrow>
                     (case ping_error p of
                        Some err \<Rightarrow>
                          t @ [Connect uri, Ping 15,
                               Log_Fatal (''MongoDB ping failed:'' @ err)]
                      | None \<Rightarrow>
                          t @ [Connect uri, Ping 15,
                               Fmt_Println ''Pinged your deployment. You successfully connected to MongoDB!'',
                               Collection ''students'' ''theirdata'',
                               Default,
                               Use cors_part_000,
                               Handle ''GET'' ''/students'',
                               Handle ''POST'' ''/students'',
                               Run ('':'' @ (let port = Getenv env ''PORT''
                                            in if port = [] then ''8080'' else port))]))))"

text \<open>Observations on a run.\<close>

fun is_Run :: "event \<Rightarrow> bool" where
  "is_Run (Run addr) = True"
| "is_Run _ = False"

fun is_Fatal :: "event \<Rightarrow> bool" where
  "is_Fatal (Log_Fatal msg) = True"
| "is_Fatal _ = False"

text \<open>The listener is opened somewhere in the run.\<close>

definition listens :: "event list \<Rightarrow> bool" where
  "listens t = list_ex is_Run t"

text \<open>The run ends in \<^verbatim>\<open>log.Fatal\<close>.\<close>

definition dies :: "event list \<Rightarrow> bool" where
  "dies t = (case rev t of [] \<Rightarrow> False | e # _ \<Rightarrow> is_Fatal e)"

text \<open>The cross-origin policies attached with \<^verbatim>\<open>r.Use\<close>, and the routes registered, in order.\<close>

fun policy_of :: "event \<Rightarrow> Config option" where
  "policy_of (Use cfg) = Some cfg"
| "policy_of _ = None"

fun route_of :: "event \<Rightarrow> (string \<times> string) option" where
  "route_of (Handle m path) = Some (m, path)"
| "route_of _ = None"

definition policies :: "event list \<Rightarrow> Config list" where
  "policies t = List.map_filter policy_of t"

definition routes :: "event list \<Rightarrow> (string \<times> string) list" where
  "routes t = List.map_filter route_of t"

text \<open>The environment \<^verbatim>\<open>main\<close> reads its variables from, after \<^verbatim>\<open>godotenv.Load\<close>.\<close>

definition loaded_env :: "process \<Rightarrow> (string \<times> string) list" where
  "loaded_env p = snd (godotenv_Load p)"

section \<open>JSON, and binding a request body to \<^verbatim>\<open>Student\<close>\<close>

text \<open>
  A JSON value as the decoder of \<^verbatim>\<open>encoding/json\<close> sees it. A number keeps its literal:
  the decoder hands the text of the literal to \<^verbatim>\<open>strconv.ParseInt\<close>.
\<close>

datatype json =
    JNull
  | JBool bool
  | JNum string
  | JStr string
  | JArr "json list"
  | JObj "(string \<times> json) list"

text \<open>
  The body of a request as \<^verbatim>\<open>json.NewDecoder(req.Body).Decode\<close> reads it: the first
  JSON value of the stream, or, when the stream does not start with one (an empty body,
  a syntax error), the text of the decoder's error.
\<close>

datatype body = Malformed string | Value json

text \<open>
  Errors. \<open>UnmarshalTypeError\<close> has the fields \<^verbatim>\<open>Value\<close>, \<^verbatim>\<open>Type\<close>, \<^verbatim>\<open>Struct\<close> and
  \<^verbatim>\<open>Field\<close> of the Go type of that name; \<open>Error\<close> is its method \<^verbatim>\<open>Error()\<close>.
\<close>

datatype error =
    SyntaxError string
  | UnmarshalTypeError string string string string
  | ValidationError string
  | DriverError string

fun Error :: "error \<Rightarrow> string" where
  "Error (SyntaxError msg) = msg"
| "Error (UnmarshalTypeError v t s f) =
     (if s \<noteq> [] \<or> f \<noteq> [] then
        ''json: cannot unmarshal '' @ v @ '' into Go struct field '' @ s @ ''.'' @ f
          @ '' of type '' @ t
      else ''json: cannot unmarshal '' @ v @ '' into Go value of type '' @ t)"
| "Error (ValidationError msg) = msg"
| "Error (DriverError msg) = msg"

text \<open>
  \<^verbatim>\<open>type Student struct { Name string `json:"name" bson:"name"`; Age int `json:"age" bson:"age"` }\<close>
  (\<^verbatim>\<open>src/main.go\<close> lines 26 to 29, \<^verbatim>\<open>src/unnamed/part_000\<close> lines 23 to 26). The fields
  carry a \<^verbatim>\<open>json\<close> and a \<^verbatim>\<open>bson\<close> tag and no \<^verbatim>\<open>binding\<close> tag. \<open>Age\<close> is a Go \<^verbatim>\<open>int\<close>
  of 64 bits: the decoder stores only values in that range.
\<close>

record Student =
  Name :: string
  Age :: int

datatype field = Name_field | Age_field

text \<open>
  The decoder looks a key up among the \<^verbatim>\<open>json\<close> tags of the struct, exactly first and
  then without regard to case. For the two tags here, which share no letter with a
  fold outside ASCII, that is equality after mapping \<^verbatim>\<open>A\<close> to \<^verbatim>\<open>Z\<close> to lower case.
\<close>

definition lower :: "char \<Rightarrow> char" where
  "lower c = (let n = (of_char c :: nat) in if 65 \<le> n \<and> n \<le> 90 then char_of (n + 32) else c)"

definition equalFold :: "string \<Rightarrow> string \<Rightarrow> bool" where
  "equalFold a b = (map lower a = map lower b)"

definition field_of :: "string \<Rightarrow> field option" where
  "field_of key =
     (if equalFold key ''name'' then Some Name_field
      else if equalFold key ''age'' then Some Age_field
      else None)"

text \<open>
  \<^verbatim>\<open>strconv.ParseInt(s, 10, 64)\<close> on a JSON number literal (which never starts with
  \<^verbatim>\<open>+\<close>): an optional minus sign and decimal digits, within the range of \<^verbatim>\<open>int64\<close>.
\<close>

definition digit_val :: "char \<Rightarrow> nat option" where
  "digit_val c =
     (let n = (of_char c :: nat) in if 48 \<le> n \<and> n \<le> 57 then Some (n - 48) else None)"

fun parse_digits :: "string \<Rightarrow> nat \<Rightarrow> nat option" where
  "parse_digits [] acc = Some acc"
| "parse_digits (c # cs) acc =
     (case digit_val c of None \<Rightarrow> None | Some d \<Rightarrow> parse_digits cs (acc * 10 + d))"

definition ParseInt :: "string \<Rightarrow> int option" where
  "ParseInt s =
     (case s of
        [] \<Rightarrow> None
      | c # cs \<Rightarrow>
          if c = CHR ''-'' then
            (case cs of
               [] \<Rightarrow> None
             | _ # _ \<Rightarrow>
                 (case parse_digits cs 0 of
                    None \<Rightarrow> None
                  | Some n \<Rightarrow> if n \<le> 2 ^ 63 then Some (- int n) else None))
          else
            (case parse_digits s 0 of
               None \<Rightarrow> None
             | Some n \<Rightarrow> if n < 2 ^ 63 then Some (int n) else None))"

text \<open>How an \<open>UnmarshalTypeError\<close> names the JSON value that did not fit.\<close>

fun kind :: "json \<Rightarrow> string" where
  "kind JNull = ''null''"
| "kind (JBool b) = ''bool''"
| "kind (JNum lit) = ''number''"
| "kind (JStr s) = ''string''"
| "kind (JArr vs) = ''array''"
| "kind (JObj kvs) = ''object''"

text \<open>
  The decoder keeps the first error it meets and goes on decoding
  (\<^verbatim>\<open>decodeState.saveError\<close>); \<^verbatim>\<open>Unmarshal\<close> returns that error at the end.
\<close>

definition saveError :: "error \<Rightarrow> error option \<Rightarrow> error option" where
  "saveError err saved = (case saved of None \<Rightarrow> Some err | Some e \<Rightarrow> Some e)"

text \<open>
  Storing one member of the object into its field. \<^verbatim>\<open>null\<close> leaves a string or an
  integer field as it is and is no error; a value of another JSON type is an
  \<open>UnmarshalTypeError\<close>; a number for \<open>Age\<close> is stored when \<open>ParseInt\<close> accepts its literal.
\<close>

fun store :: "field \<Rightarrow> json \<Rightarrow> Student \<times> error option \<Rightarrow> Student \<times> error option" where
  "store Name_field v (st, saved) =
     (case v of
        JStr s \<Rightarrow> (st\<lparr>Name := s\<rparr>, saved)
      | JNull \<Rightarrow> (st, saved)
      | _ \<Rightarrow> (st, saveError (UnmarshalTypeError (kind v) ''string'' ''Student'' ''name'') saved))"
| "store Age_field v (st, saved) =
     (case v of
        JNum lit \<Rightarrow>
          (case ParseInt lit of
             Some n \<Rightarrow> (st\<lparr>Age := n\<rparr>, saved)
           | None \<Rightarrow>
               (st, saveError (UnmarshalTypeError (''number '' @ lit) ''int'' ''Student'' ''age'')
                      saved))
      | JNull \<Rightarrow> (st, saved)
      | _ \<Rightarrow> (st, saveError (UnmarshalTypeError (kind v) ''int'' ''Student'' ''age'') saved))"

text \<open>
  The members of a JSON object, in order: a key that names no field is skipped, a key
  that comes twice is stored twice (the later value stays). A field whose key does
  not occur is never written.
\<close>

fun object :: "(string \<times> json) list \<Rightarrow> Student \<times> error option \<Rightarrow> Student \<times> error option" where
  "object [] s = s"
| "object ((key, v) # kvs) s =
     object kvs (case field_of key of None \<Rightarrow> s | Some f \<Rightarrow> store f v s)"

text \<open>
  \<^verbatim>\<open>Decode\<close> into a \<^verbatim>\<open>*Student\<close>: an object is decoded member by member, \<^verbatim>\<open>null\<close> leaves
  the struct as it is, any other value is an \<open>UnmarshalTypeError\<close>.
\<close>

definition Unmarshal :: "json \<Rightarrow> Student \<Rightarrow> error + Student" where
  "Unmarshal v st =
     (case v of
        JObj kvs \<Rightarrow>
          (case object kvs (st, None) of
             (st', None) \<Rightarrow> Inr st'
           | (st', Some err) \<Rightarrow> Inl err)
      | JNull \<Rightarrow> Inr st
      | _ \<Rightarrow> Inl (UnmarshalTypeError (kind v) ''main.Student'' [] []))"

text \<open>
  The validator of gin checks the rules written in the \<^verbatim>\<open>binding\<close> tags of the struct.
  \<open>required\<close> says, for each field in declaration order, whether its tag has the rule
  \<^verbatim>\<open>required\<close>, which rejects the zero value of the field. \<^verbatim>\<open>Student\<close> declares no
  \<^verbatim>\<open>binding\<close> tag, so both entries are \<open>False\<close>.
\<close>

definition required :: "field \<Rightarrow> bool" where
  "required f = (case f of Name_field \<Rightarrow> False | Age_field \<Rightarrow> False)"

definition validate :: "Student \<Rightarrow> error option" where
  "validate st =
     (if required Name_field \<and> Name st = [] then
        Some (ValidationError ''Key: 'Student.Name' Error:Field validation for 'Name' failed on the 'required' tag'')
      else if required Age_field \<and> Age st = 0 then
        Some (ValidationError ''Key: 'Student.Age' Error:Field validation for 'Age' failed on the 'required' tag'')
      else None)"

text \<open>
  \<^verbatim>\<open>c.ShouldBindJSON(&newStudent)\<close> with \<^verbatim>\<open>var newStudent Student\<close>: decode the body into
  the zero value of the struct, then validate.
\<close>

definition ShouldBindJSON :: "body \<Rightarrow> error + Student" where
  "ShouldBindJSON b =
     (case b of
        Malformed msg \<Rightarrow> Inl (SyntaxError msg)
      | Value v \<Rightarrow>
          (case Unmarshal v \<lparr>Name = [], Age = 0\<rparr> of
             Inl err \<Rightarrow> Inl err
           | Inr st \<Rightarrow> (case validate st of Some err \<Rightarrow> Inl err | None \<Rightarrow> Inr st)))"

text \<open>
  A member of a JSON object that the decoder cannot store: its key names a field and its
  value is neither \<^verbatim>\<open>null\<close> nor of the field's type (for \<open>Age\<close>, a number whose literal
  \<open>ParseInt\<close> accepts).
\<close>

definition ill_typed :: "string \<times> json \<Rightarrow> bool" where
  "ill_typed m =
     (case field_of (fst m) of
        None \<Rightarrow> False
      | Some Name_field \<Rightarrow> (case snd m of JStr s \<Rightarrow> False | JNull \<Rightarrow> False | _ \<Rightarrow> True)
      | Some Age_field \<Rightarrow>
          (case snd m of JNum lit \<Rightarrow> ParseInt lit = None | JNull \<Rightarrow> False | _ \<Rightarrow> True))"

section \<open>The collection and the driver\<close>

text \<open>
  Stored documents are ordered lists of keys and BSON values. The identifier of a
  document is an \<^verbatim>\<open>ObjectID\<close>, kept as its hexadecimal text.
\<close>

type_synonym object_id = string

datatype bson =
    BNull
  | BBool bool
  | BInt int
  | BStr string
  | BOid object_id
  | BArr "bson list"
  | BDoc "(string \<times> bson) list"

type_synonym document = "(string \<times> bson) list"

text \<open>
  The collection \<^verbatim>\<open>students.theirdata\<close>: its documents, and the calls the driver has
  sent to it, in order.
\<close>

datatype call = Call_Find | Call_All | Call_InsertOne document

record collection =
  documents :: "document list"
  calls :: "call list"

text \<open>
  What the driver does during one request and the program does not decide: whether
  \<^verbatim>\<open>Find\<close>, \<^verbatim>\<open>cursor.All\<close> and \<^verbatim>\<open>InsertOne\<close> fail (\<open>None\<close> for success, otherwise the
  text of the error; a timeout of the operation context is such an error), and the
  identifier given to an inserted document.
\<close>

record driver =
  find_error :: "string option"
  all_error :: "string option"
  insert_error :: "string option"
  new_id :: object_id

text \<open>
  \<^verbatim>\<open>collection.Find(ctx, bson.D{})\<close>: the empty filter selects every document. The
  cursor is the list of documents still to be read.
\<close>

definition Find :: "driver \<Rightarrow> collection \<Rightarrow> (error + document list) \<times> collection" where
  "Find drv coll =
     (case find_error drv of
        Some msg \<Rightarrow> Inl (DriverError msg)
      | None \<Rightarrow> Inr (documents coll),
      coll\<lparr>calls := calls coll @ [Call_Find]\<rparr>)"

text \<open>
  \<^verbatim>\<open>cursor.All(ctx, &results)\<close>. A Go slice is \<open>None\<close> when it is \<^verbatim>\<open>nil\<close> and \<open>Some xs\<close>
  otherwise. The driver appends the decoded documents to the slice and cuts it to
  their number; a \<^verbatim>\<open>nil\<close> slice and a cursor without documents leave it \<^verbatim>\<open>nil\<close>.
  Every document is decoded into a \<^verbatim>\<open>bson.M\<close>, an open mapping from keys to values:
  each key of the stored document with its value.
\<close>

definition cursor_All ::
  "driver \<Rightarrow> document list \<Rightarrow> document list option \<Rightarrow> collection
   \<Rightarrow> (error + document list option) \<times> collection" where
  "cursor_All drv cursor results coll =
     (case all_error drv of
        Some msg \<Rightarrow> Inl (DriverError msg)
      | None \<Rightarrow>
          Inr (case (cursor, results) of
                 ([], None) \<Rightarrow> None
               | _ \<Rightarrow> Some cursor),
      coll\<lparr>calls := calls coll @ [Call_All]\<rparr>)"

text \<open>
  The document the driver builds from a \<^verbatim>\<open>Student\<close>: one entry for each field, under
  its \<^verbatim>\<open>bson\<close> tag.
\<close>

definition bson_of_Student :: "Student \<Rightarrow> document" where
  "bson_of_Student st = [(''name'', BStr (Name st)), (''age'', BInt (Age st))]"

text \<open>
  \<^verbatim>\<open>collection.InsertOne(ctx, newStudent)\<close>: the struct has no \<^verbatim>\<open>_id\<close>, so the driver
  puts a new identifier in front of the document and returns it as \<^verbatim>\<open>InsertedID\<close>.
\<close>

definition InsertOne :: "driver \<Rightarrow> Student \<Rightarrow> collection \<Rightarrow> (error + object_id) \<times> collection" where
  "InsertOne drv st coll =
     (let doc = (''_id'', BOid (new_id drv)) # bson_of_Student st;
          coll1 = coll\<lparr>calls := calls coll @ [Call_InsertOne doc]\<rparr>
      in case insert_error drv of
           Some msg \<Rightarrow> (Inl (DriverError msg), coll1)
         | None \<Rightarrow> (Inr (new_id drv), coll1\<lparr>documents := documents coll1 @ [doc]\<rparr>))"

section \<open>Responses\<close>

text \<open>\<^verbatim>\<open>strconv.Itoa\<close>: the decimal text of an integer.\<close>

fun digits :: "nat \<Rightarrow> string" where
  "digits n =
     (if n < 10 then [char_of (48 + n)] else digits (n div 10) @ [char_of (48 + n mod 10)])"

definition Itoa :: "int \<Rightarrow> string" where
  "Itoa i = (if i < 0 then CHR ''-'' # digits (nat (- i)) else digits (nat i))"

text \<open>
  \<^verbatim>\<open>json.Marshal\<close> on the values the handlers pass to \<^verbatim>\<open>c.JSON\<close>. An \<^verbatim>\<open>ObjectID\<close> is
  written as the string of its hexadecimal text. A map (\<^verbatim>\<open>gin.H\<close>, \<^verbatim>\<open>bson.M\<close>) is an
  object; the order of its members, which carries no meaning in JSON, is kept as
  written. A slice is an array, except that a \<^verbatim>\<open>nil\<close> slice is \<^verbatim>\<open>null\<close>.
\<close>

primrec json_of_bson :: "bson \<Rightarrow> json" where
  "json_of_bson BNull = JNull"
| "json_of_bson (BBool b) = JBool b"
| "json_of_bson (BInt i) = JNum (Itoa i)"
| "json_of_bson (BStr s) = JStr s"
| "json_of_bson (BOid i) = JStr i"
| "json_of_bson (BArr vs) = JArr (map json_of_bson vs)"
| "json_of_bson (BDoc kvs) = JObj (map (map_prod id json_of_bson) kvs)"

definition json_of_M :: "document \<Rightarrow> json" where
  "json_of_M d = JObj (map (map_prod id json_of_bson) d)"

datatype payload = H "(string \<times> bson) list" | Slice "document list option"

fun Marshal :: "payload \<Rightarrow> json" where
  "Marshal (H kvs) = json_of_M kvs"
| "Marshal (Slice None) = JNull"
| "Marshal (Slice (Some ds)) = JArr (map json_of_M ds)"

text \<open>
  A response, and the \<^verbatim>\<open>gin.Context\<close> of one request, of which the handlers use the
  responses written so far. \<^verbatim>\<open>c.JSON(code, obj)\<close> writes one.
\<close>

record response =
  status :: nat
  body :: json

record Context =
  written :: "response list"

definition JSON :: "nat \<Rightarrow> payload \<Rightarrow> Context \<Rightarrow> Context" where
  "JSON code obj c = c\<lparr>written := written c @ [\<lparr>status = code, body = Marshal obj\<rparr>]\<rparr>"

section \<open>The handlers\<close>

text \<open>
  \<^verbatim>\<open>GET /students\<close> (\<^verbatim>\<open>src/main.go\<close> lines 84 to 102, \<^verbatim>\<open>src/unnamed/part_000\<close> lines 76
  to 94). \<^verbatim>\<open>var results []bson.M\<close> declares a \<^verbatim>\<open>nil\<close> slice.
\<close>

definition get_students :: "driver \<Rightarrow> collection \<Rightarrow> Context \<Rightarrow> collection \<times> Context" where
  "get_students drv coll c =
     (case Find drv coll of
        (Inl err, coll1) \<Rightarrow>
          (coll1, JSON 500 (H [(''error'', BStr ''Failed to fetch documents'')]) c)
      | (Inr cursor, coll1) \<Rightarrow>
          (let results = None
           in case cursor_All drv cursor results coll1 of
                (Inl err, coll2) \<Rightarrow>
                  (coll2, JSON 500 (H [(''error'', BStr ''Failed to decode documents'')]) c)
              | (Inr results, coll2) \<Rightarrow>
                  (coll2, JSON 200 (Slice results) c)))"

text \<open>
  \<^verbatim>\<open>POST /students\<close> (\<^verbatim>\<open>src/main.go\<close> lines 106 to 132, \<^verbatim>\<open>src/unnamed/part_000\<close> lines 97
  to 117).
\<close>

definition post_students :: "driver \<Rightarrow> body \<Rightarrow> collection \<Rightarrow> Context \<Rightarrow> collection \<times> Context" where
  "post_students drv b coll c =
     (case ShouldBindJSON b of
        Inl err \<Rightarrow> (coll, JSON 400 (H [(''error'', BStr (Error err))]) c)
      | Inr newStudent \<Rightarrow>
          (case InsertOne drv newStudent coll of
             (Inl err, coll1) \<Rightarrow>
               (coll1, JSON 500 (H [(''error'', BStr ''Failed to insert document'')]) c)
           | (Inr insertedID, coll1) \<Rightarrow>
               (coll1, JSON 201 (H [(''message'', BStr ''Student added successfully!''),
                                    (''insertedID'', BOid insertedID)]) c)))"

text \<open>
  The two routes the router knows. gin answers a request for any other method or
  path by itself, without running code of the program. Each request gets a
  \<^verbatim>\<open>gin.Context\<close> of its own, with nothing written.
\<close>

datatype request = GET_students | POST_students body

definition serve :: "driver \<Rightarrow> request \<Rightarrow> collection \<Rightarrow> collection \<times> Context" where
  "serve drv rq coll =
     (case rq of
        GET_students \<Rightarrow> get_students drv coll \<lparr>written = []\<rparr>
      | POST_students b \<Rightarrow> post_students drv b coll \<lparr>written = []\<rparr>)"

text \<open>A run of the server: requests one after the other, each with its driver outcomes.\<close>

fun serve_all :: "(driver \<times> request) list \<Rightarrow> collection \<Rightarrow> collection" where
  "serve_all [] coll = coll"
| "serve_all ((drv, rq) # rqs) coll = serve_all rqs (fst (serve drv rq coll))"

text \<open>
  The shape of a stored student: the identifier, then \<^verbatim>\<open>name\<close> with a string, then
  \<^verbatim>\<open>age\<close> with an integer, and nothing else.
\<close>

fun student_shaped :: "document \<Rightarrow> bool" where
  "student_shaped [(k1, BOid i), (k2, BStr n), (k3, BInt a)] =
     (k1 = ''_id'' \<and> k2 = ''name'' \<and> k3 = ''age'')"
| "student_shaped _ = False"

section \<open>Properties of process start\<close>

lemmas main_defs = main_go_def main_part_000_def godotenv_Load_def loaded_env_def
  dies_def listens_def policies_def routes_def List.map_filter_simps Let_def

text \<open>
  Claim C5. When \<^verbatim>\<open>MONGODB_URI\<close> is absent (\<^verbatim>\<open>os.Getenv\<close> gives the empty string), or
  \<^verbatim>\<open>mongo.Connect\<close> fails, or the ping of the primary fails, the run of either variant
  ends in \<^verbatim>\<open>log.Fatal\<close> and never reaches \<^verbatim>\<open>r.Run\<close>: the listener is not opened. The
  ping, wherever a run reaches it, is made under the timeout of 15 seconds.
\<close>

theorem startup_fatal_before_listen:
  assumes "Getenv (loaded_env p) ''MONGODB_URI'' = [] \<or> connect_error p \<noteq> None
           \<or> ping_error p \<noteq> None"
  shows "dies (main_go p) \<and> \<not> listens (main_go p)
         \<and> dies (main_part_000 p) \<and> \<not> listens (main_part_000 p)
         \<and> (\<forall>n. Ping n \<in> set (main_go p) \<union> set (main_part_000 p) \<longrightarrow> n = 15)"
  using assms
  by (cases "dotenv_file p"; cases "Getenv (loaded_env p) ''MONGODB_URI'' = []";
      cases "connect_error p"; cases "ping_error p")
     (auto simp: main_defs)

theorem startup_fatal_before_listen_witness:
  "ping_error \<lparr> environ = [(''MONGODB_URI'', ''mongodb://db'')], dotenv_file = Some [],
                 connect_error = None, ping_error = Some ''context deadline exceeded'' \<rparr>
     \<noteq> None
   \<and> main_part_000 \<lparr> environ = [(''MONGODB_URI'', ''mongodb://db'')], dotenv_file = Some [],
                      connect_error = None, ping_error = Some ''context deadline exceeded'' \<rparr>
       = [Fmt_Println ''Main package -> PORT: '', Connect ''mongodb://db'', Ping 15,
          Log_Fatal ''MongoDB ping failed:context deadline exceeded'']
   \<and> dies (main_go \<lparr> environ = [(''MONGODB_URI'', ''mongodb://db'')], dotenv_file = Some [],
                      connect_error = None, ping_error = Some ''context deadline exceeded'' \<rparr>)
   \<and> \<not> listens (main_go \<lparr> environ = [(''MONGODB_URI'', ''mongodb://db'')],
                          dotenv_file = Some [], connect_error = None,
                          ping_error = Some ''context deadline exceeded'' \<rparr>)"
  using startup_fatal_before_listen
    [of "\<lparr> environ = [(''MONGODB_URI'', ''mongodb://db'')], dotenv_file = Some [],
           connect_error = None, ping_error = Some ''context deadline exceeded'' \<rparr>"]
  by (simp add: main_part_000_def godotenv_Load_def Getenv_def)

text \<open>
  Claim C3, as stated: a failed load of \<^verbatim>\<open>.env\<close> is logged and the start goes on to the
  configuration and the database. In \<^verbatim>\<open>src/main.go\<close> it does not: with no \<^verbatim>\<open>.env\<close>
  file, a \<^verbatim>\<open>MONGODB_URI\<close> in the environment and a database that answers, the run is the
  single \<^verbatim>\<open>log.Fatal\<close>.
\<close>

theorem main_go_dotenv_failure_fatal:
  "main_go \<lparr> environ = [(''MONGODB_URI'', ''mongodb://db'')], dotenv_file = None,
              connect_error = None, ping_error = None \<rparr>
     = [Log_Fatal ''Error loading .env file'']"
  by (simp add: main_defs)

text \<open>
  Claim C3, amended. In \<^verbatim>\<open>src/unnamed/part_000\<close> a failed load of \<^verbatim>\<open>.env\<close> is logged and
  is not fatal: the run is the log line followed by the run the process makes with an
  empty \<^verbatim>\<open>.env\<close> file, so the configuration is read from the process environment and,
  when \<^verbatim>\<open>MONGODB_URI\<close> is set there, the database connection is made. In
  \<^verbatim>\<open>src/main.go\<close> the same failure ends the process at once.
\<close>

theorem dotenv_failure_by_variant:
  assumes "dotenv_file p = None"
  shows "main_part_000 p =
           Log_Println ''No .env file found, using Render environment variables''
             # main_part_000 (p\<lparr>dotenv_file := Some []\<rparr>)
         \<and> (Getenv (environ p) ''MONGODB_URI'' \<noteq> [] \<longrightarrow>
              Connect (Getenv (environ p) ''MONGODB_URI'') \<in> set (main_part_000 p))
         \<and> main_go p = [Log_Fatal ''Error loading .env file'']"
  using assms
  by (cases "Getenv (environ p) ''MONGODB_URI'' = []"; cases "connect_error p";
      cases "ping_error p")
     (simp_all add: main_defs)

theorem dotenv_failure_by_variant_witness:
  "dotenv_file \<lparr> environ = [(''MONGODB_URI'', ''mongodb://db'')], dotenv_file = None,
                  connect_error = None, ping_error = None \<rparr> = None
   \<and> main_part_000 \<lparr> environ = [(''MONGODB_URI'', ''mongodb://db'')], dotenv_file = None,
                      connect_error = None, ping_error = None \<rparr>
       = [Log_Println ''No .env file found, using Render environment variables'',
          Fmt_Println ''Main package -> PORT: '', Connect ''mongodb://db'', Ping 15,
          Fmt_Println ''Pinged your deployment. You successfully connected to MongoDB!'',
          Collection ''students'' ''theirdata'', Default, Use cors_part_000,
          Handle ''GET'' ''/students'', Handle ''POST'' ''/students'', Run '':8080'']
   \<and> Connect ''mongodb://db''
       \<in> set (main_part_000 \<lparr> environ = [(''MONGODB_URI'', ''mongodb://db'')],
                               dotenv_file = None, connect_error = None,
                               ping_error = None \<rparr>)"
  using dotenv_failure_by_variant
    [of "\<lparr> environ = [(''MONGODB_URI'', ''mongodb://db'')], dotenv_file = None,
           connect_error = None, ping_error = None \<rparr>"]
  by (simp add: main_part_000_def godotenv_Load_def Getenv_def)

text \<open>
  Claim C4, as stated: the listener binds to the port of \<^verbatim>\<open>PORT\<close>. In \<^verbatim>\<open>src/main.go\<close> it
  does not: with \<^verbatim>\<open>PORT=3000\<close> the process listens on \<^verbatim>\<open>:8080\<close> and not on \<^verbatim>\<open>:3000\<close>.
\<close>

theorem main_go_ignores_PORT:
  "Run '':8080''
     \<in> set (main_go \<lparr> environ = [(''PORT'', ''3000''), (''MONGODB_URI'', ''mongodb://db'')],
                       dotenv_file = Some [], connect_error = None, ping_error = None \<rparr>)
   \<and> Run '':3000''
     \<notin> set (main_go \<lparr> environ = [(''PORT'', ''3000''), (''MONGODB_URI'', ''mongodb://db'')],
                       dotenv_file = Some [], connect_error = None, ping_error = None \<rparr>)"
  by (simp add: main_defs Getenv_def)

text \<open>
  Claim C4, amended. When \<^verbatim>\<open>src/unnamed/part_000\<close> opens its listener, it does so once,
  on the port \<^verbatim>\<open>os.Getenv("PORT")\<close> gives, and on 8080 when that is empty (\<^verbatim>\<open>PORT\<close> unset
  or set to the empty string). When \<^verbatim>\<open>src/main.go\<close> opens its listener, it does so
  once, on 8080, whatever \<^verbatim>\<open>PORT\<close> is.
\<close>

theorem listen_address_by_variant:
  "(listens (main_part_000 p) \<longrightarrow>
      filter is_Run (main_part_000 p) =
        [Run ('':'' @ (if Getenv (loaded_env p) ''PORT'' = [] then ''8080''
                       else Getenv (loaded_env p) ''PORT''))])
   \<and> (listens (main_go p) \<longrightarrow> filter is_Run (main_go p) = [Run '':8080''])"
  by (cases "dotenv_file p"; cases "Getenv (loaded_env p) ''MONGODB_URI'' = []";
      cases "connect_error p"; cases "ping_error p")
     (simp_all add: main_defs)

theorem listen_address_by_variant_witness:
  "listens (main_part_000 \<lparr> environ = [(''PORT'', ''3000''), (''MONGODB_URI'', ''mongodb://db'')],
                             dotenv_file = None, connect_error = None, ping_error = None \<rparr>)
   \<and> filter is_Run
        (main_part_000 \<lparr> environ = [(''PORT'', ''3000''), (''MONGODB_URI'', ''mongodb://db'')],
                          dotenv_file = None, connect_error = None, ping_error = None \<rparr>)
       = [Run '':3000'']
   \<and> listens (main_go \<lparr> environ = [(''PORT'', ''3000''), (''MONGODB_URI'', ''mongodb://db'')],
                         dotenv_file = Some [], connect_error = None, ping_error = None \<rparr>)
   \<and> filter is_Run
        (main_go \<lparr> environ = [(''PORT'', ''3000''), (''MONGODB_URI'', ''mongodb://db'')],
                    dotenv_file = Some [], connect_error = None, ping_error = None \<rparr>)
       = [Run '':8080'']
   \<and> listens (main_part_000 \<lparr> environ = [(''MONGODB_URI'', ''mongodb://db'')],
                               dotenv_file = None, connect_error = None, ping_error = None \<rparr>)
   \<and> filter is_Run
        (main_part_000 \<lparr> environ = [(''MONGODB_URI'', ''mongodb://db'')],
                          dotenv_file = None, connect_error = None, ping_error = None \<rparr>)
       = [Run '':8080'']"
  using listen_address_by_variant
    [of "\<lparr> environ = [(''PORT'', ''3000''), (''MONGODB_URI'', ''mongodb://db'')],
           dotenv_file = None, connect_error = None, ping_error = None \<rparr>"]
    listen_address_by_variant
    [of "\<lparr> environ = [(''PORT'', ''3000''), (''MONGODB_URI'', ''mongodb://db'')],
           dotenv_file = Some [], connect_error = None, ping_error = None \<rparr>"]
    listen_address_by_variant
    [of "\<lparr> environ = [(''MONGODB_URI'', ''mongodb://db'')],
           dotenv_file = None, connect_error = None, ping_error = None \<rparr>"]
  by (simp add: main_defs Getenv_def)



section \<open>Properties of binding\<close>

lemma store_keeps_error: "snd (store f v (st, Some e)) = Some e"
  by (cases f; cases v) (simp_all add: saveError_def split: option.splits)

lemma store_clean:
  "field_of key = Some f \<Longrightarrow> snd (store f v (st, None)) = None \<longleftrightarrow> \<not> ill_typed (key, v)"
  by (cases f; cases v) (simp_all add: ill_typed_def saveError_def split: option.splits)

lemma object_keeps_error: "snd (object kvs (st, Some e)) = Some e"
proof (induction kvs arbitrary: st)
  case Nil
  show ?case by simp
next
  case (Cons m kvs)
  obtain key v where m: "m = (key, v)" by (cases m)
  show ?case
  proof (cases "field_of key")
    case None
    with m Cons show ?thesis by simp
  next
    case (Some f)
    obtain st' where "store f v (st, Some e) = (st', Some e)"
      using store_keeps_error [of f v st e] by (cases "store f v (st, Some e)") simp
    with m Some Cons show ?thesis by simp
  qed
qed

text \<open>Decoding an object ends without an error exactly when no member is ill-typed.\<close>

lemma object_clean: "snd (object kvs (st, None)) = None \<longleftrightarrow> \<not> list_ex ill_typed kvs"
proof (induction kvs arbitrary: st)
  case Nil
  show ?case by simp
next
  case (Cons m kvs)
  obtain key v where m: "m = (key, v)" by (cases m)
  show ?case
  proof (cases "field_of key")
    case None
    then have "\<not> ill_typed (key, v)" by (simp add: ill_typed_def)
    with m None Cons show ?thesis by simp
  next
    case (Some f)
    obtain st' saved where s: "store f v (st, None) = (st', saved)"
      by (cases "store f v (st, None)")
    show ?thesis
    proof (cases saved)
      case None
      with s Some have "\<not> ill_typed (key, v)"
        using store_clean [of key f v st] by simp
      with m Some s None Cons show ?thesis by simp
    next
      case (Some e)
      with s \<open>field_of key = Some f\<close> have "ill_typed (key, v)"
        using store_clean [of key f v st] by simp
      with m \<open>field_of key = Some f\<close> s Some show ?thesis
        by (simp add: object_keeps_error)
    qed
  qed
qed

lemma bind_object_fails_iff:
  "(\<exists>err. ShouldBindJSON (Value (JObj kvs)) = Inl err) \<longleftrightarrow> list_ex ill_typed kvs"
proof -
  obtain st saved where o: "object kvs (\<lparr>Name = [], Age = 0\<rparr>, None) = (st, saved)"
    by (cases "object kvs (\<lparr>Name = [], Age = 0\<rparr>, None)")
  have "saved = None \<longleftrightarrow> \<not> list_ex ill_typed kvs"
    using object_clean [of kvs "\<lparr>Name = [], Age = 0\<rparr>"] o by simp
  with o show ?thesis
    by (cases saved) (simp_all add: ShouldBindJSON_def Unmarshal_def validate_def required_def)
qed

text \<open>A field whose key does not occur in the object keeps the value it had.\<close>

lemma store_other_field:
  "Name (fst (store Age_field v s)) = Name (fst s)"
  "Age (fst (store Name_field v s)) = Age (fst s)"
  by (cases s; cases v; simp split: option.splits)+

lemma object_absent_Name:
  "\<not> list_ex (\<lambda>m. field_of (fst m) = Some Name_field) kvs
   \<Longrightarrow> Name (fst (object kvs s)) = Name (fst s)"
proof (induction kvs arbitrary: s)
  case Nil
  show ?case by simp
next
  case (Cons m kvs)
  obtain key v where m: "m = (key, v)" by (cases m)
  from Cons.prems m have k: "field_of key \<noteq> Some Name_field"
    and rest: "\<not> list_ex (\<lambda>m. field_of (fst m) = Some Name_field) kvs" by simp_all
  show ?case
  proof (cases "field_of key")
    case None
    with m Cons.IH [OF rest] show ?thesis by simp
  next
    case (Some f)
    with k have "f = Age_field" by (cases f) simp_all
    with m Some Cons.IH [OF rest, of "store Age_field v s"] show ?thesis
      by (simp add: store_other_field)
  qed
qed

lemma object_absent_Age:
  "\<not> list_ex (\<lambda>m. field_of (fst m) = Some Age_field) kvs
   \<Longrightarrow> Age (fst (object kvs s)) = Age (fst s)"
proof (induction kvs arbitrary: s)
  case Nil
  show ?case by simp
next
  case (Cons m kvs)
  obtain key v where m: "m = (key, v)" by (cases m)
  from Cons.prems m have k: "field_of key \<noteq> Some Age_field"
    and rest: "\<not> list_ex (\<lambda>m. field_of (fst m) = Some Age_field) kvs" by simp_all
  show ?case
  proof (cases "field_of key")
    case None
    with m Cons.IH [OF rest] show ?thesis by simp
  next
    case (Some f)
    with k have "f = Name_field" by (cases f) simp_all
    with m Some Cons.IH [OF rest, of "store Name_field v s"] show ?thesis
      by (simp add: store_other_field)
  qed
qed

section \<open>Properties of the handlers\<close>

lemmas handler_defs = get_students_def post_students_def Find_def cursor_All_def InsertOne_def
  JSON_def json_of_M_def Let_def

lemmas bind_defs = ShouldBindJSON_def Unmarshal_def field_of_def equalFold_def lower_def
  validate_def required_def ParseInt_def digit_val_def saveError_def ill_typed_def

text \<open>
  Claim C1, as stated: a body without \<^verbatim>\<open>name\<close> or without \<^verbatim>\<open>age\<close> is answered with 400
  and nothing is inserted. The body \<^verbatim>\<open>{"name": "Ada"}\<close> has no \<^verbatim>\<open>age\<close>; on an empty
  collection the handler answers 201 and the collection holds one document, with
  \<^verbatim>\<open>age\<close> 0.
\<close>

theorem post_students_missing_age_inserted:
  "post_students
     \<lparr>find_error = None, all_error = None, insert_error = None,
       new_id = ''65f1c0ffee0123456789abcd''\<rparr>
     (Value (JObj [(''name'', JStr ''Ada'')]))
     \<lparr>documents = [], calls = []\<rparr>
     \<lparr>written = []\<rparr>
   = (\<lparr>documents = [[(''_id'', BOid ''65f1c0ffee0123456789abcd''), (''name'', BStr ''Ada''),
                       (''age'', BInt 0)]],
       calls = [Call_InsertOne [(''_id'', BOid ''65f1c0ffee0123456789abcd''),
                                (''name'', BStr ''Ada''), (''age'', BInt 0)]]\<rparr>,
      \<lparr>written = [\<lparr>status = 201,
                    body = JObj [(''message'', JStr ''Student added successfully!''),
                                 (''insertedID'', JStr ''65f1c0ffee0123456789abcd'')]\<rparr>]\<rparr>)"
  by (simp add: handler_defs bind_defs bson_of_Student_def)

text \<open>
  Claim C1, amended. Whenever the body does not bind, the handler answers 400 with the
  text of the binder's error and leaves the collection as it was, without a call to
  the database. A JSON object does not bind exactly when one of its members is
  ill-typed: a member for \<^verbatim>\<open>name\<close> that is neither a string nor \<^verbatim>\<open>null\<close>, or a member for
  \<^verbatim>\<open>age\<close> that is neither an integer literal of 64 bits nor \<^verbatim>\<open>null\<close>. So a non-integer
  \<^verbatim>\<open>age\<close> is answered with 400, and a missing \<^verbatim>\<open>name\<close> or \<^verbatim>\<open>age\<close> is no failure: an
  object without a member for a field binds with the zero value of that field.
\<close>

theorem post_students_rejects_unbindable_body:
  "(ShouldBindJSON b = Inl err \<longrightarrow>
      post_students drv b coll c =
        (coll, c\<lparr>written := written c @
                   [\<lparr>status = 400, body = JObj [(''error'', JStr (Error err))]\<rparr>]\<rparr>))
   \<and> ((\<exists>e. ShouldBindJSON (Value (JObj kvs)) = Inl e) \<longleftrightarrow> list_ex ill_typed kvs)
   \<and> (ShouldBindJSON (Value (JObj kvs)) = Inr st \<longrightarrow>
        (\<not> list_ex (\<lambda>m. field_of (fst m) = Some Name_field) kvs \<longrightarrow> Name st = [])
        \<and> (\<not> list_ex (\<lambda>m. field_of (fst m) = Some Age_field) kvs \<longrightarrow> Age st = 0))"
proof (intro conjI impI)
  assume "ShouldBindJSON b = Inl err"
  then show "post_students drv b coll c =
        (coll, c\<lparr>written := written c @
                   [\<lparr>status = 400, body = JObj [(''error'', JStr (Error err))]\<rparr>]\<rparr>)"
    by (simp add: post_students_def JSON_def json_of_M_def)
next
  show "(\<exists>e. ShouldBindJSON (Value (JObj kvs)) = Inl e) \<longleftrightarrow> list_ex ill_typed kvs"
    by (rule bind_object_fails_iff)
next
  assume b: "ShouldBindJSON (Value (JObj kvs)) = Inr st"
    and n: "\<not> list_ex (\<lambda>m. field_of (fst m) = Some Name_field) kvs"
  from b have "st = fst (object kvs (\<lparr>Name = [], Age = 0\<rparr>, None))"
    by (auto simp: ShouldBindJSON_def Unmarshal_def split: prod.splits option.splits sum.splits)
  with object_absent_Name [OF n, of "(\<lparr>Name = [], Age = 0\<rparr>, None)"]
  show "Name st = []" by simp
next
  assume b: "ShouldBindJSON (Value (JObj kvs)) = Inr st"
    and n: "\<not> list_ex (\<lambda>m. field_of (fst m) = Some Age_field) kvs"
  from b have "st = fst (object kvs (\<lparr>Name = [], Age = 0\<rparr>, None))"
    by (auto simp: ShouldBindJSON_def Unmarshal_def split: prod.splits option.splits sum.splits)
  with object_absent_Age [OF n, of "(\<lparr>Name = [], Age = 0\<rparr>, None)"]
  show "Age st = 0" by simp
qed

theorem post_students_rejects_unbindable_body_witness:
  "ShouldBindJSON (Value (JObj [(''name'', JStr ''Ada''), (''age'', JNum ''30.5'')]))
     = Inl (UnmarshalTypeError ''number 30.5'' ''int'' ''Student'' ''age'')
   \<and> post_students
       \<lparr>find_error = None, all_error = None, insert_error = None, new_id = ''65f1c0ffee0123456789abcd''\<rparr>
       (Value (JObj [(''name'', JStr ''Ada''), (''age'', JNum ''30.5'')]))
       \<lparr>documents = [], calls = []\<rparr> \<lparr>written = []\<rparr>
     = (\<lparr>documents = [], calls = []\<rparr>,
        \<lparr>written = [\<lparr>status = 400,
                      body = JObj [(''error'',
                        JStr ''json: cannot unmarshal number 30.5 into Go struct field Student.age of type int'')]\<rparr>]\<rparr>)
   \<and> list_ex ill_typed [(''name'', JStr ''Ada''), (''age'', JNum ''30.5'')]
   \<and> ShouldBindJSON (Value (JObj [(''age'', JNum ''30'')])) = Inr \<lparr>Name = [], Age = 30\<rparr>
   \<and> \<not> list_ex (\<lambda>m. field_of (fst m) = Some Name_field) [(''age'', JNum ''30'')]
   \<and> Name \<lparr>Name = [], Age = 30\<rparr> = []"
  using post_students_rejects_unbindable_body
    [of "Value (JObj [(''name'', JStr ''Ada''), (''age'', JNum ''30.5'')])"
        "UnmarshalTypeError ''number 30.5'' ''int'' ''Student'' ''age''"
        "\<lparr>find_error = None, all_error = None, insert_error = None, new_id = ''65f1c0ffee0123456789abcd''\<rparr>"
        "\<lparr>documents = [], calls = []\<rparr>" "\<lparr>written = []\<rparr>"
        "[(''name'', JStr ''Ada''), (''age'', JNum ''30.5'')]" "\<lparr>Name = [], Age = 0\<rparr>"]
    post_students_rejects_unbindable_body
    [of "Value (JObj [(''age'', JNum ''30'')])"
        "UnmarshalTypeError ''number 30.5'' ''int'' ''Student'' ''age''"
        "\<lparr>find_error = None, all_error = None, insert_error = None, new_id = ''65f1c0ffee0123456789abcd''\<rparr>"
        "\<lparr>documents = [], calls = []\<rparr>" "\<lparr>written = []\<rparr>"
        "[(''age'', JNum ''30'')]" "\<lparr>Name = [], Age = 30\<rparr>"]
  by (simp add: bind_defs)



text \<open>
  Claim C2, evaluated: \<^verbatim>\<open>GET /students\<close> on an empty collection, with \<^verbatim>\<open>Find\<close> and
  \<^verbatim>\<open>cursor.All\<close> succeeding. The status is 200; \<^verbatim>\<open>results\<close> is still the \<^verbatim>\<open>nil\<close> slice
  it was declared as, and the body is \<^verbatim>\<open>null\<close>, not the empty array.
\<close>

theorem get_students_empty_collection:
  "get_students
     \<lparr>find_error = None, all_error = None, insert_error = None, new_id = []\<rparr>
     \<lparr>documents = [], calls = []\<rparr>
     \<lparr>written = []\<rparr>
   = (\<lparr>documents = [], calls = [Call_Find, Call_All]\<rparr>,
      \<lparr>written = [\<lparr>status = 200, body = JNull\<rparr>]\<rparr>)
   \<and> JNull \<noteq> JArr []"
  by (simp add: handler_defs)

text \<open>
  Claim C7, evaluated: the response of \<^verbatim>\<open>GET /students\<close> in every case. A failed
  \<^verbatim>\<open>Find\<close> gives 500 with \<^verbatim>\<open>Failed to fetch documents\<close>; a failed \<^verbatim>\<open>cursor.All\<close> gives 500
  with \<^verbatim>\<open>Failed to decode documents\<close>; otherwise the status is 200 and the body is the
  array of all documents of the collection, each with every key and value it is
  stored with, when there is a document, and \<^verbatim>\<open>null\<close> when there is none.
\<close>

theorem get_students_response:
  "written (snd (get_students drv coll c)) =
     written c @
       [case find_error drv of
          Some msg \<Rightarrow>
            \<lparr>status = 500, body = JObj [(''error'', JStr ''Failed to fetch documents'')]\<rparr>
        | None \<Rightarrow>
            (case all_error drv of
               Some msg \<Rightarrow>
                 \<lparr>status = 500, body = JObj [(''error'', JStr ''Failed to decode documents'')]\<rparr>
             | None \<Rightarrow>
                 \<lparr>status = 200,
                   body = (case documents coll of
                             [] \<Rightarrow> JNull
                           | d # ds \<Rightarrow>
                               JArr (map (\<lambda>d. JObj (map (map_prod id json_of_bson) d))
                                       (documents coll)))\<rparr>)]"
  by (cases "find_error drv"; cases "all_error drv"; cases "documents coll")
     (simp_all add: handler_defs)

text \<open>The same on a collection that holds a document with a field of its own.\<close>

lemma get_students_passes_documents_through:
  "snd (get_students
     \<lparr>find_error = None, all_error = None, insert_error = None, new_id = []\<rparr>
     \<lparr>documents = [[(''_id'', BOid ''65f1c0ffee0123456789abcd''), (''name'', BStr ''Ada''),
                     (''nick'', BArr [BStr ''A'', BNull])]],
       calls = []\<rparr>
     \<lparr>written = []\<rparr>)
   = \<lparr>written = [\<lparr>status = 200,
        body = JArr [JObj [(''_id'', JStr ''65f1c0ffee0123456789abcd''), (''name'', JStr ''Ada''),
                           (''nick'', JArr [JStr ''A'', JNull])]]\<rparr>]\<rparr>"
  by (simp add: handler_defs)



section \<open>The shape of stored documents\<close>

lemma get_students_documents: "documents (fst (get_students drv coll c)) = documents coll"
  by (cases "find_error drv"; cases "all_error drv") (simp_all add: handler_defs)

lemma post_students_documents:
  "documents (fst (post_students drv b coll c)) = documents coll
   \<or> (\<exists>st. documents (fst (post_students drv b coll c))
             = documents coll @ [(''_id'', BOid (new_id drv)) # bson_of_Student st])"
  by (cases "insert_error drv"; cases "ShouldBindJSON b") (auto simp: handler_defs)

lemma student_shaped_inserted: "student_shaped ((''_id'', BOid i) # bson_of_Student st)"
  by (simp add: bson_of_Student_def)

lemma serve_shaped:
  assumes "list_all student_shaped (documents coll)"
  shows "list_all student_shaped (documents (fst (serve drv rq coll)))"
proof (cases rq)
  case GET_students
  with assms show ?thesis by (simp add: serve_def get_students_documents)
next
  case (POST_students b)
  with assms post_students_documents [of drv b coll "\<lparr>written = []\<rparr>"] show ?thesis
    by (auto simp: serve_def student_shaped_inserted)
qed

text \<open>
  Claim C8. If every document of the collection has exactly the identifier, \<^verbatim>\<open>name\<close>
  and \<^verbatim>\<open>age\<close>, then so has every document after any sequence of requests, whatever
  their bodies and whatever the driver does: the list handler writes nothing, and
  the create handler inserts only the document built from the bound struct, so a
  field the client adds never reaches the collection. In particular this holds of
  every run that starts on the empty collection.
\<close>

theorem stored_documents_student_shaped:
  assumes "list_all student_shaped (documents coll)"
  shows "list_all student_shaped (documents (serve_all rqs coll))"
  using assms
proof (induction rqs arbitrary: coll)
  case Nil
  then show ?case by simp
next
  case (Cons x rqs)
  obtain drv rq where "x = (drv, rq)" by (cases x)
  with Cons show ?case by (simp add: serve_shaped)
qed

theorem stored_documents_student_shaped_witness:
  "list_all student_shaped (documents \<lparr>documents = [], calls = []\<rparr>)
   \<and> documents (serve_all
       [(\<lparr>find_error = None, all_error = None, insert_error = None,
           new_id = ''65f1c0ffee0123456789abcd''\<rparr>,
         POST_students (Value (JObj [(''name'', JStr ''Ada''), (''admin'', JBool True),
                                     (''age'', JNum ''30'')]))),
        (\<lparr>find_error = None, all_error = None, insert_error = None, new_id = []\<rparr>,
         GET_students)]
       \<lparr>documents = [], calls = []\<rparr>)
     = [[(''_id'', BOid ''65f1c0ffee0123456789abcd''), (''name'', BStr ''Ada''),
         (''age'', BInt 30)]]
   \<and> list_all student_shaped (documents (serve_all
       [(\<lparr>find_error = None, all_error = None, insert_error = None,
           new_id = ''65f1c0ffee0123456789abcd''\<rparr>,
         POST_students (Value (JObj [(''name'', JStr ''Ada''), (''admin'', JBool True),
                                     (''age'', JNum ''30'')]))),
        (\<lparr>find_error = None, all_error = None, insert_error = None, new_id = []\<rparr>,
         GET_students)]
       \<lparr>documents = [], calls = []\<rparr>))"
  using stored_documents_student_shaped
    [of "\<lparr>documents = [], calls = []\<rparr>"
        "[(\<lparr>find_error = None, all_error = None, insert_error = None,
             new_id = ''65f1c0ffee0123456789abcd''\<rparr>,
           POST_students (Value (JObj [(''name'', JStr ''Ada''), (''admin'', JBool True),
                                       (''age'', JNum ''30'')]))),
          (\<lparr>find_error = None, all_error = None, insert_error = None, new_id = []\<rparr>,
           GET_students)]"]
  by (simp add: serve_def handler_defs bind_defs bson_of_Student_def)


end
